theory Spec2Isabelle
  imports Main "HOL-Library.Sublist"
begin

section \<open>The sqlite binding of pkg/sqlite/sqlite.go\<close>

text \<open>
  The package wraps the C interface of SQLite. The methods of \<open>Conn\<close>, \<open>Stmt\<close>
  and \<open>Backup\<close> that the properties below are about are embedded as HOL
  functions that pass the state of the world explicitly. The
  C library is not part of the package: it is a parameter of the model, an
  arbitrary deterministic engine whose answer to a call may depend on the whole
  history of calls made so far. The history (the trace) is the world state, so
  that a theorem can say which calls a function issued, in which order, and
  that it issued none.

  Status codes are C ints and Go ints, both 32 bits wide in the Go release the
  package is written for. The package compares them with constants and prints
  them; the only arithmetic is \<open>i+1\<close> on an argument index. They are
  modelled as \<open>int\<close>.
\<close>

subsection \<open>Errors\<close>

text \<open>
  \<open>os.Error\<close> is an interface. The package puts three kinds of value in it: an
  \<open>Errno\<close>, a string made by \<open>os.NewError\<close>, and the constant \<open>os.EINVAL\<close>. The nil
  interface value is \<open>None\<close> of \<open>os_Error option\<close>.
\<close>

datatype os_Error = Errno int | NewError string | EINVAL

type_synonym Error = "os_Error option"

text \<open>The table \<open>errText\<close>, in the order of the source.\<close>

definition errText_table :: "(int \<times> string) list" where
  "errText_table =
    [(1, ''SQL error or missing database''),
     (2, ''Internal logic error in SQLite''),
     (3, ''Access permission denied''),
     (4, ''Callback routine requested an abort''),
     (5, ''The database file is locked''),
     (6, ''A table in the database is locked''),
     (7, ''A malloc() failed''),
     (8, ''Attempt to write a readonly database''),
     (9, ''Operation terminated by sqlite3_interrupt()*/''),
     (10, ''Some kind of disk I/O error occurred''),
     (11, ''The database disk image is malformed''),
     (12, ''NOT USED. Table or record not found''),
     (13, ''Insertion failed because database is full''),
     (14, ''Unable to open the database file''),
     (15, ''NOT USED. Database lock protocol error''),
     (16, ''Database is empty''),
     (17, ''The database schema changed''),
     (18, ''String or BLOB exceeds size limit''),
     (19, ''Abort due to constraint violation''),
     (20, ''Data type mismatch''),
     (21, ''Library used incorrectly''),
     (22, ''Uses OS features not supported on host''),
     (23, ''Authorization denied''),
     (24, ''Auxiliary database format error''),
     (25, ''2nd parameter to sqlite3_bind out of range''),
     (26, ''File opened that is not a database file''),
     (100, ''sqlite3_step() has another row ready''),
     (101, ''sqlite3_step() has finished executing'')]"

text \<open>A Go map read at a key it does not hold gives the zero value, the empty string.\<close>

definition errText :: "int \<Rightarrow> string" where
  "errText e = (case map_of errText_table e of None \<Rightarrow> [] | Some s \<Rightarrow> s)"

text \<open>The verb \<open>%d\<close> of \<open>fmt.Sprintf\<close> and \<open>strconv.Itoa\<close>: signed decimal.\<close>

fun nat_digits :: "nat \<Rightarrow> string" where
  "nat_digits n =
     (if n < 10 then [''0123456789'' ! n]
      else nat_digits (n div 10) @ [''0123456789'' ! (n mod 10)])"

declare nat_digits.simps [simp del]

definition Itoa :: "int \<Rightarrow> string" where
  "Itoa i = (if i < 0 then CHR ''-'' # nat_digits (nat (- i)) else nat_digits (nat i))"

definition Errno_String :: "int \<Rightarrow> string" where
  "Errno_String e =
     (let s = errText e in
      if s = [] then ''errno '' @ Itoa e else s)"

definition ErrBusy :: os_Error where "ErrBusy = Errno 5"
definition ErrLocked :: os_Error where "ErrLocked = Errno 6"
definition Row :: int where "Row = 100"
definition Done :: int where "Done = 101"

subsection \<open>Pointers, the calls into C and the engine\<close>

text \<open>
  A C pointer is \<open>None\<close> when it is null and \<open>Some h\<close> otherwise. A slice of
  bytes and a Go string are both sequences of bytes.
\<close>

type_synonym handle = nat
type_synonym ptr = "handle option"
type_synonym bytes = "char list"

record BackupStatus =
  Remaining :: int
  PageCount :: int

text \<open>
  One event per call that leaves the package: the C functions with their
  arguments, the send on the progress channel, \<open>time.Sleep\<close> and the reading of
  the clock. \<open>C.CString\<close> and \<open>C.free\<close> only copy a Go string for the call and
  are not recorded; the event holds the text passed.
\<close>

datatype event =
    Sqlite3_errmsg handle
  | Sqlite3_errcode ptr
  | Sqlite3_backup_step ptr int
  | Sqlite3_backup_remaining ptr
  | Sqlite3_backup_pagecount ptr
  | Sqlite3_backup_finish ptr
  | Sqlite3_prepare_v2 handle string int
  | Sqlite3_reset ptr
  | Sqlite3_bind_parameter_count ptr
  | My_bind_blob ptr int "bytes option" int
  | My_bind_text ptr int string int
  | Sqlite3_step ptr
  | Sqlite3_finalize ptr
  | Sqlite3_column_count ptr
  | Sqlite3_column_bytes ptr int
  | Sqlite3_column_blob ptr int
  | Sqlite3_close handle
  | Chan_send BackupStatus
  | Time_Sleep int
  | Time_Nanoseconds

type_synonym world = "event list"

text \<open>
  The engine: what a call answers after a given history. \<open>status\<close> is the
  answer of the calls that return an int, \<open>message\<close> the string behind the pointer
  returned by \<open>sqlite3_errmsg\<close>, \<open>out_stmt\<close> the statement pointer that
  \<open>sqlite3_prepare_v2\<close> stores, \<open>memory\<close> the pointer returned by
  \<open>sqlite3_column_blob\<close> together with the bytes found behind it,
  \<open>nanoseconds\<close> the clock read by \<open>time.Nanoseconds\<close>.
\<close>

record engine =
  status :: "world \<Rightarrow> event \<Rightarrow> int"
  message :: "world \<Rightarrow> event \<Rightarrow> string"
  out_stmt :: "world \<Rightarrow> event \<Rightarrow> ptr"
  memory :: "world \<Rightarrow> event \<Rightarrow> (nat \<Rightarrow> char) option"
  nanoseconds :: "world \<Rightarrow> int"

definition call :: "engine \<Rightarrow> event \<Rightarrow> world \<Rightarrow> int \<times> world" where
  "call E ev w = (status E w ev, w @ [ev])"

subsection \<open>Conn\<close>

record Conn =
  db :: ptr

text \<open>
  A \<open>*Conn\<close> is \<open>None\<close> when it is the nil pointer. The methods below read the
  connection and never write it, so the value stands for the object.
\<close>

fun Conn_error :: "engine \<Rightarrow> Conn option \<Rightarrow> int \<Rightarrow> world \<Rightarrow> Error \<times> world" where
  "Conn_error E None rv w = (Some (NewError ''nil sqlite database''), w)"
| "Conn_error E (Some c) rv w =
     (case db c of
        None \<Rightarrow> (Some (NewError ''nil sqlite database''), w)
      | Some h \<Rightarrow>
          if rv = 0 then (None, w)
          else if rv = 21 then (Some (Errno rv), w)
          else (Some (NewError (Errno_String rv @ '': '' @ message E w (Sqlite3_errmsg h))),
                w @ [Sqlite3_errmsg h]))"


fun Conn_Close :: "engine \<Rightarrow> Conn option \<Rightarrow> world \<Rightarrow> Error \<times> Conn option \<times> world" where
  "Conn_Close E None w = (Some (NewError ''nil sqlite database''), None, w)"
| "Conn_Close E (Some c) w =
     (case db c of
        None \<Rightarrow> (Some (NewError ''nil sqlite database''), Some c, w)
      | Some h \<Rightarrow>
          let (rv, w1) = call E (Sqlite3_close h) w in
          if rv \<noteq> 0 then (let (e, w2) = Conn_error E (Some c) rv w1 in (e, Some c, w2))
          else (None, Some (c\<lparr>db := None\<rparr>), w1))"

subsection \<open>Backup\<close>

record Backup =
  sb :: ptr
  dst :: "Conn option"
  src :: "Conn option"

definition Backup_Step :: "engine \<Rightarrow> Backup \<Rightarrow> int \<Rightarrow> world \<Rightarrow> Error \<times> world" where
  "Backup_Step E b npage w =
     (let (rv, w1) = call E (Sqlite3_backup_step (sb b) npage) w in
      if rv = 0 \<or> Errno rv = ErrBusy \<or> Errno rv = ErrLocked then (None, w1)
      else (Some (Errno rv), w1))"

definition Backup_Status :: "engine \<Rightarrow> Backup \<Rightarrow> world \<Rightarrow> BackupStatus \<times> world" where
  "Backup_Status E b w =
     (let (r, w1) = call E (Sqlite3_backup_remaining (sb b)) w;
          (p, w2) = call E (Sqlite3_backup_pagecount (sb b)) w1
      in (\<lparr>Remaining = r, PageCount = p\<rparr>, w2))"

text \<open>
  A function of the package that dereferences a nil pointer panics; the model
  gives \<open>Panics\<close> there.
\<close>

datatype 'a outcome = Returns 'a | Panics

text \<open>
  The body of the loop of \<open>Run\<close> after a \<open>Step\<close> that returned nil: the status is
  sent when there is a channel (\<open>chan\<close> is \<open>c != nil\<close>), then the loop sleeps. The
  send is taken to complete; a receiver that never reads is outside the model.
\<close>

definition Run_continue :: "engine \<Rightarrow> Backup \<Rightarrow> int \<Rightarrow> bool \<Rightarrow> world \<Rightarrow> world" where
  "Run_continue E b sleepNs chan w1 =
     (if chan then (case Backup_Status E b w1 of (st, w2) \<Rightarrow> w2 @ [Chan_send st]) else w1)
       @ [Time_Sleep sleepNs]"

text \<open>
  The loop of \<open>Run\<close> has no bound. It is a partial function: \<open>None\<close> when it runs
  forever, otherwise the value of \<open>err\<close> and the world at the \<open>break\<close>.
\<close>

partial_function (option) Run_loop ::
  "engine \<Rightarrow> Backup \<Rightarrow> int \<Rightarrow> int \<Rightarrow> bool \<Rightarrow> world \<Rightarrow> (os_Error \<times> world) option" where
  "Run_loop E b npage sleepNs chan w =
     (case Backup_Step E b npage w of
        (Some err, w1) \<Rightarrow> Some (err, w1)
      | (None, w1) \<Rightarrow> Run_loop E b npage sleepNs chan (Run_continue E b sleepNs chan w1))"

declare Run_loop.simps [code]

text \<open>
  The world at the head of iteration \<open>k\<close> of the loop, when the \<open>Step\<close> of every
  earlier iteration returned nil.
\<close>

fun Run_world :: "engine \<Rightarrow> Backup \<Rightarrow> int \<Rightarrow> int \<Rightarrow> bool \<Rightarrow> world \<Rightarrow> nat \<Rightarrow> world" where
  "Run_world E b npage sleepNs chan w 0 = w"
| "Run_world E b npage sleepNs chan w (Suc k) =
     Run_world E b npage sleepNs chan
       (Run_continue E b sleepNs chan (snd (Backup_Step E b npage w))) k"

definition Backup_Run ::
  "engine \<Rightarrow> Backup \<Rightarrow> int \<Rightarrow> int \<Rightarrow> bool \<Rightarrow> world \<Rightarrow> (Error outcome \<times> world) option" where
  "Backup_Run E b npage sleepNs chan w =
     (case Run_loop E b npage sleepNs chan w of
        None \<Rightarrow> None
      | Some (err, w1) \<Rightarrow>
          (case dst b of
             None \<Rightarrow> Some (Panics, w1)
           | Some d \<Rightarrow>
               let (code, w2) = call E (Sqlite3_errcode (db d)) w1;
                   (r, w3) = Conn_error E (Some d) code w2
               in Some (Returns r, w3)))"

definition Backup_Close :: "Backup \<Rightarrow> world \<Rightarrow> Error \<times> Backup \<times> world" where
  "Backup_Close b w =
     (case sb b of
        None \<Rightarrow> (Some EINVAL, b, w)
      | Some h \<Rightarrow> (None, b\<lparr>sb := None\<rparr>, w @ [Sqlite3_backup_finish (Some h)]))"

subsection \<open>Stmt\<close>

record Stmt =
  Stmt_c :: "Conn option"
  Stmt_stmt :: ptr
  Stmt_err :: Error
  Stmt_t0 :: int
  Stmt_sql :: string
  Stmt_args :: string

text \<open>
  \<open>Prepare\<close> returns a pair; \<open>(nil, err)\<close> and \<open>(&Stmt{...}, nil)\<close> are the two
  shapes the source builds.
\<close>

fun Conn_Prepare ::
  "engine \<Rightarrow> Conn option \<Rightarrow> string \<Rightarrow> world \<Rightarrow> (Stmt option \<times> Error) \<times> world" where
  "Conn_Prepare E None cmd w = ((None, Some (NewError ''nil sqlite database'')), w)"
| "Conn_Prepare E (Some c) cmd w =
     (case db c of
        None \<Rightarrow> ((None, Some (NewError ''nil sqlite database'')), w)
      | Some h \<Rightarrow>
          let ev = Sqlite3_prepare_v2 h cmd (int (length cmd) + 1);
              rv = status E w ev;
              stmt = out_stmt E w ev;
              w1 = w @ [ev]
          in if rv \<noteq> 0 then (let (e, w2) = Conn_error E (Some c) rv w1 in ((None, e), w2))
             else ((Some \<lparr>Stmt_c = Some c, Stmt_stmt = stmt, Stmt_err = None,
                           Stmt_t0 = nanoseconds E w1, Stmt_sql = cmd, Stmt_args = []\<rparr>,
                    None),
                   w1 @ [Time_Nanoseconds]))"

text \<open>
  The arguments of \<open>Stmt.Exec\<close> are values of any type. The type switch tells
  \<open>[]byte\<close> and \<open>bool\<close> from the rest; \<open>'v\<close> is the type of the rest. Package
  \<open>fmt\<close> is a parameter: \<open>Sprint\<close> renders one such value, \<open>Sprintf_v\<close> is the
  verb \<open>%v\<close> on the argument slice.
\<close>

datatype 'v arg = Bytes bytes | Bool bool | Other 'v

record 'v fmt =
  Sprint :: "'v \<Rightarrow> string"
  Sprintf_v :: "'v arg list \<Rightarrow> string"

text \<open>The loop \<open>for i, v := range args\<close> of \<open>Stmt.Exec\<close>, from index \<open>i\<close> on.\<close>

fun bind_args ::
  "engine \<Rightarrow> 'v fmt \<Rightarrow> Stmt \<Rightarrow> nat \<Rightarrow> 'v arg list \<Rightarrow> world \<Rightarrow> Error \<times> world" where
  "bind_args E F s i [] w = (None, w)"
| "bind_args E F s i (Bytes v # vs) w =
     (let p = (if length v > 0 then Some v else None);
          (rv, w1) = call E (My_bind_blob (Stmt_stmt s) (int i + 1) p (int (length v))) w
      in if rv \<noteq> 0 then Conn_error E (Stmt_c s) rv w1
         else bind_args E F s (Suc i) vs w1)"
| "bind_args E F s i (v # vs) w =
     (let str = (case v of Bool t \<Rightarrow> if t then ''1'' else ''0'' | Other x \<Rightarrow> Sprint F x);
          (rv, w1) = call E (My_bind_text (Stmt_stmt s) (int i + 1) str (int (length str))) w
      in if rv \<noteq> 0 then Conn_error E (Stmt_c s) rv w1
         else bind_args E F s (Suc i) vs w1)"

definition Exec_count_error :: "nat \<Rightarrow> int \<Rightarrow> os_Error" where
  "Exec_count_error have want =
     NewError (''incorrect argument count for Stmt.Exec: have '' @ Itoa (int have)
               @ '' want '' @ Itoa want)"

definition Stmt_Exec ::
  "engine \<Rightarrow> 'v fmt \<Rightarrow> Stmt \<Rightarrow> 'v arg list \<Rightarrow> world \<Rightarrow> Error \<times> Stmt \<times> world" where
  "Stmt_Exec E F s0 as w =
     (let s = s0\<lparr>Stmt_args := '' '' @ Sprintf_v F as\<rparr>;
          (rv, w1) = call E (Sqlite3_reset (Stmt_stmt s)) w
      in if rv \<noteq> 0 then (let (e, w2) = Conn_error E (Stmt_c s) rv w1 in (e, s, w2))
         else
           let (n, w2) = call E (Sqlite3_bind_parameter_count (Stmt_stmt s)) w1
           in if n \<noteq> int (length as) then (Some (Exec_count_error (length as) n), s, w2)
              else (let (e, w3) = bind_args E F s 0 as w2 in (e, s, w3)))"

definition Stmt_Error :: "Stmt \<Rightarrow> Error" where
  "Stmt_Error s = Stmt_err s"

definition Stmt_Next :: "engine \<Rightarrow> Stmt \<Rightarrow> world \<Rightarrow> bool \<times> Stmt \<times> world" where
  "Stmt_Next E s w =
     (let (rv, w1) = call E (Sqlite3_step (Stmt_stmt s)) w;
          err = rv
      in if err = Row then (True, s, w1)
         else if err \<noteq> Done
           then (let (e, w2) = Conn_error E (Stmt_c s) rv w1 in (False, s\<lparr>Stmt_err := e\<rparr>, w2))
           else (False, s, w1))"

definition Stmt_Reset :: "engine \<Rightarrow> Stmt \<Rightarrow> world \<Rightarrow> Error \<times> Stmt \<times> world" where
  "Stmt_Reset E s w = (None, s, w @ [Sqlite3_reset (Stmt_stmt s)])"

definition Stmt_SQL :: "Stmt \<Rightarrow> string" where
  "Stmt_SQL s = Stmt_sql s @ Stmt_args s"

definition Stmt_Finalize :: "engine \<Rightarrow> Stmt \<Rightarrow> world \<Rightarrow> Error \<times> world" where
  "Stmt_Finalize E s w =
     (let (rv, w1) = call E (Sqlite3_finalize (Stmt_stmt s)) w
      in if rv \<noteq> 0 then Conn_error E (Stmt_c s) rv w1 else (None, w1))"

text \<open>
  The targets of \<open>Stmt.Scan\<close> are pointers; the type switch reads their type
  only. \<open>To_other t\<close> is a target of any other type, \<open>t\<close> the text
  \<open>reflect.Typeof(v).String()\<close>. What \<open>Scan\<close> stores through the pointers is
  returned as a list, one value per target served. Package \<open>strconv\<close> is a
  parameter; \<open>Inl\<close> holds \<open>err.String()\<close>, and \<open>'f\<close> is \<open>float64\<close>.
\<close>

datatype target = To_bytes | To_string | To_bool | To_int | To_int64 | To_float64
  | To_other string

datatype 'f stored = Stored_bytes bytes | Stored_string string | Stored_bool bool
  | Stored_int int | Stored_int64 int | Stored_float64 'f

record 'f strconv =
  Atoi :: "string \<Rightarrow> string + int"
  Atoi64 :: "string \<Rightarrow> string + int"
  Atof64 :: "string \<Rightarrow> string + 'f"

text \<open>The type switch of \<open>Stmt.Scan\<close> for target \<open>i\<close>.\<close>

fun scan_store :: "'f strconv \<Rightarrow> nat \<Rightarrow> target \<Rightarrow> bytes \<Rightarrow> os_Error + 'f stored" where
  "scan_store S i To_bytes data = Inr (Stored_bytes data)"
| "scan_store S i To_string data = Inr (Stored_string data)"
| "scan_store S i To_bool data = Inr (Stored_bool (data = ''1''))"
| "scan_store S i To_int data =
     (case Atoi S data of
        Inl e \<Rightarrow> Inl (NewError (''arg '' @ Itoa (int i) @ '' as int: '' @ e))
      | Inr x \<Rightarrow> Inr (Stored_int x))"
| "scan_store S i To_int64 data =
     (case Atoi64 S data of
        Inl e \<Rightarrow> Inl (NewError (''arg '' @ Itoa (int i) @ '' as int64: '' @ e))
      | Inr x \<Rightarrow> Inr (Stored_int64 x))"
| "scan_store S i To_float64 data =
     (case Atof64 S data of
        Inl e \<Rightarrow> Inl (NewError (''arg '' @ Itoa (int i) @ '' as float64: '' @ e))
      | Inr x \<Rightarrow> Inr (Stored_float64 x))"
| "scan_store S i (To_other t) data = Inl (NewError (''unsupported type in Scan: '' @ t))"

text \<open>
  The loop of \<open>Stmt.Scan\<close> from target \<open>i\<close> on. The slice expression
  \<open>(*[1<<30]byte)(p)[0:n]\<close> reads \<open>n\<close> bytes behind the pointer and panics
  when \<open>n\<close> exceeds the array length.
\<close>

fun scan_args ::
  "engine \<Rightarrow> 'f strconv \<Rightarrow> Stmt \<Rightarrow> nat \<Rightarrow> target list \<Rightarrow> world
     \<Rightarrow> ('f stored list \<times> Error) outcome \<times> world" where
  "scan_args E S s i [] w = (Returns ([], None), w)"
| "scan_args E S s i (v # vs) w =
     (let (n, w1) = call E (Sqlite3_column_bytes (Stmt_stmt s) (int i)) w;
          p = memory E w1 (Sqlite3_column_blob (Stmt_stmt s) (int i));
          w2 = w1 @ [Sqlite3_column_blob (Stmt_stmt s) (int i)]
      in if p = None \<and> n > 0 then (Returns ([], Some (NewError ''got nil blob'')), w2)
         else if n > 2 ^ 30 then (Panics, w2)
         else
           let data = (case p of Some m \<Rightarrow> if n > 0 then map m [0..<nat n] else []
                                 | None \<Rightarrow> [])
           in case scan_store S i v data of
                Inl e \<Rightarrow> (Returns ([], Some e), w2)
              | Inr x \<Rightarrow>
                  (case scan_args E S s (Suc i) vs w2 of
                     (Returns (xs, e), w3) \<Rightarrow> (Returns (x # xs, e), w3)
                   | (Panics, w3) \<Rightarrow> (Panics, w3)))"

definition Scan_count_error :: "nat \<Rightarrow> int \<Rightarrow> os_Error" where
  "Scan_count_error have want =
     NewError (''incorrect argument count for Stmt.Scan: have '' @ Itoa (int have)
               @ '' want '' @ Itoa want)"

definition Stmt_Scan ::
  "engine \<Rightarrow> 'f strconv \<Rightarrow> Stmt \<Rightarrow> target list \<Rightarrow> world
     \<Rightarrow> ('f stored list \<times> Error) outcome \<times> world" where
  "Stmt_Scan E S s ts w =
     (let (n, w1) = call E (Sqlite3_column_count (Stmt_stmt s)) w
      in if n \<noteq> int (length ts) then (Returns ([], Some (Scan_count_error (length ts) n)), w1)
         else scan_args E S s 0 ts w1)"

text \<open>
  \<open>Conn.Exec\<close>. The deferred \<open>s.Finalize()\<close> runs after the result is computed and
  its own result is dropped. \<open>Prepare\<close> returning \<open>(nil, nil)\<close> would make the
  method calls on \<open>s\<close> dereference nil.
\<close>

definition Conn_Exec ::
  "engine \<Rightarrow> 'v fmt \<Rightarrow> Conn option \<Rightarrow> string \<Rightarrow> 'v arg list \<Rightarrow> world \<Rightarrow> Error outcome \<times> world" where
  "Conn_Exec E F c cmd as w =
     (case Conn_Prepare E c cmd w of
        ((_, Some err), w1) \<Rightarrow> (Returns (Some err), w1)
      | ((None, None), w1) \<Rightarrow> (Panics, w1)
      | ((Some s0, None), w1) \<Rightarrow>
          (case Stmt_Exec E F s0 as w1 of
             (Some err, s, w2) \<Rightarrow> (Returns (Some err), snd (Stmt_Finalize E s w2))
           | (None, s, w2) \<Rightarrow>
               let (rv, w3) = call E (Sqlite3_step (Stmt_stmt s)) w2
               in if rv \<noteq> Done
                  then (let (e, w4) = Conn_error E c rv w3
                        in (Returns e, snd (Stmt_Finalize E s w4)))
                  else (Returns None, snd (Stmt_Finalize E s w3))))"

subsection \<open>A caller working on one statement\<close>

text \<open>
  The operations of a statement that a caller may issue one after the other,
  and the statement and world they leave. \<open>Scan\<close> takes the statement and does
  not assign to it; a panic ends the run.
\<close>

datatype 'v stmt_op = Op_Next | Op_Reset | Op_Exec "'v arg list" | Op_Scan "target list"

fun apply_ops ::
  "engine \<Rightarrow> 'v fmt \<Rightarrow> 'f strconv \<Rightarrow> 'v stmt_op list \<Rightarrow> Stmt \<Rightarrow> world \<Rightarrow> Stmt \<times> world" where
  "apply_ops E F S [] s w = (s, w)"
| "apply_ops E F S (Op_Next # ops) s w =
     (case Stmt_Next E s w of (row, s1, w1) \<Rightarrow> apply_ops E F S ops s1 w1)"
| "apply_ops E F S (Op_Reset # ops) s w =
     (case Stmt_Reset E s w of (e, s1, w1) \<Rightarrow> apply_ops E F S ops s1 w1)"
| "apply_ops E F S (Op_Exec as # ops) s w =
     (case Stmt_Exec E F s as w of (e, s1, w1) \<Rightarrow> apply_ops E F S ops s1 w1)"
| "apply_ops E F S (Op_Scan ts # ops) s w =
     (case Stmt_Scan E S s ts w of
        (Returns r, w1) \<Rightarrow> apply_ops E F S ops s w1
      | (Panics, w1) \<Rightarrow> (s, w1))"

subsection \<open>Concrete engines and values for the examples\<close>

text \<open>
  An engine that answers by the call alone, whatever the history, with a fixed
  diagnostic message.
\<close>

definition scripted :: "(event \<Rightarrow> int) \<Rightarrow> string \<Rightarrow> engine" where
  "scripted f msg =
     \<lparr>status = (\<lambda>w. f), message = (\<lambda>w ev. msg), out_stmt = (\<lambda>w ev. Some 2),
      memory = (\<lambda>w ev. None), nanoseconds = (\<lambda>w. 0)\<rparr>"

definition demo_fmt :: "string fmt" where
  "demo_fmt = \<lparr>Sprint = (\<lambda>x. x), Sprintf_v = (\<lambda>as. ''['' @ Itoa (int (length as)) @ '']'')\<rparr>"

definition demo_stmt :: Stmt where
  "demo_stmt =
     \<lparr>Stmt_c = Some \<lparr>db = Some 1\<rparr>, Stmt_stmt = Some 2, Stmt_err = None, Stmt_t0 = 0,
      Stmt_sql = ''select ?'', Stmt_args = []\<rparr>"

text \<open>A connection is closed when the pointer is nil or its handle is.\<close>

definition closed :: "Conn option \<Rightarrow> bool" where
  "closed c = (case c of None \<Rightarrow> True | Some k \<Rightarrow> db k = None)"

text \<open>
  Engines for a statement: one whose \<open>sqlite3_reset\<close> answers 19 (the status of
  an earlier failed step) on a statement of one parameter, and engines that
  answer 0 to every call but the parameter count.
\<close>

definition reset_fails :: engine where
  "reset_fails =
     scripted (\<lambda>ev. case ev of Sqlite3_reset p \<Rightarrow> 19 | Sqlite3_bind_parameter_count p \<Rightarrow> 1 | _ \<Rightarrow> 0)
       ''UNIQUE constraint failed: t.a''"

definition one_parameter :: engine where
  "one_parameter =
     scripted (\<lambda>ev. case ev of Sqlite3_bind_parameter_count p \<Rightarrow> 1 | _ \<Rightarrow> 0) ''not an error''"

definition five_parameters :: engine where
  "five_parameters =
     scripted (\<lambda>ev. case ev of Sqlite3_bind_parameter_count p \<Rightarrow> 5 | _ \<Rightarrow> 0) ''not an error''"

text \<open>
  An engine whose statement has one column and no rows, and a \<open>strconv\<close> that
  parses nothing.
\<close>

definition no_rows :: engine where
  "no_rows =
     scripted (\<lambda>ev. case ev of Sqlite3_step p \<Rightarrow> 101 | Sqlite3_column_count p \<Rightarrow> 1 | _ \<Rightarrow> 0)
       ''not an error''"

definition demo_strconv :: "int strconv" where
  "demo_strconv =
     \<lparr>Atoi = (\<lambda>s. Inl ''invalid argument''), Atoi64 = (\<lambda>s. Inl ''invalid argument''),
      Atof64 = (\<lambda>s. Inl ''invalid argument'')\<rparr>"

text \<open>
  An engine whose backup is busy at the first step and finished at the second,
  with a destination that reports no error.
\<close>

definition busy_then_done :: engine where
  "busy_then_done =
     \<lparr>status = (\<lambda>w ev. case ev of
                   Sqlite3_backup_step p n \<Rightarrow> if length w < 5 then 5 else 101
                 | Sqlite3_backup_remaining p \<Rightarrow> 3
                 | Sqlite3_backup_pagecount p \<Rightarrow> 8
                 | _ \<Rightarrow> 0),
      message = (\<lambda>w ev. ''not an error''), out_stmt = (\<lambda>w ev. None),
      memory = (\<lambda>w ev. None), nanoseconds = (\<lambda>w. 0)\<rparr>"

definition demo_backup :: Backup where
  "demo_backup = \<lparr>sb = Some 3, dst = Some \<lparr>db = Some 1\<rparr>, src = Some \<lparr>db = Some 4\<rparr>\<rparr>"


text \<open>
  An engine for a statement of three parameters that refuses the text bound at
  position 2 with status 25.
\<close>

definition second_bind_fails :: engine where
  "second_bind_fails =
     scripted (\<lambda>ev. case ev of
                  Sqlite3_bind_parameter_count p \<Rightarrow> 3
                | My_bind_text p n str len \<Rightarrow> if n = 2 then 25 else 0
                | _ \<Rightarrow> 0)
       ''bind or column index out of range''"

subsection \<open>The binding the specification describes\<close>

text \<open>
  Written from the words of the specification, to be compared with the loop
  of \<open>Stmt.Exec\<close>: the call that binds value \<open>v\<close> at the 1-based position \<open>pos\<close>. A
  byte sequence is bound as a blob, the empty one with a null pointer and length
  0; a boolean as the text "1" or "0"; any other value as its default text.
\<close>

definition spec_bind :: "'v fmt \<Rightarrow> ptr \<Rightarrow> int \<Rightarrow> 'v arg \<Rightarrow> event" where
  "spec_bind F st pos v =
     (case v of
        Bytes bs \<Rightarrow>
          if bs = [] then My_bind_blob st pos None 0
          else My_bind_blob st pos (Some bs) (int (length bs))
      | Bool t \<Rightarrow> if t then My_bind_text st pos ''1'' 1 else My_bind_text st pos ''0'' 1
      | Other x \<Rightarrow> My_bind_text st pos (Sprint F x) (int (length (Sprint F x))))"

definition spec_binds :: "'v fmt \<Rightarrow> ptr \<Rightarrow> nat \<Rightarrow> 'v arg list \<Rightarrow> event list" where
  "spec_binds F st i vs = map (\<lambda>(j, v). spec_bind F st (int j + 1) v) (enumerate i vs)"

text \<open>
  What the engine answers to binding \<open>j\<close> (counted from 0) of the
  specification when the reset, the parameter count and the bindings before it
  have been made.
\<close>

definition bind_answer :: "engine \<Rightarrow> 'v fmt \<Rightarrow> Stmt \<Rightarrow> 'v arg list \<Rightarrow> world \<Rightarrow> nat \<Rightarrow> int" where
  "bind_answer E F s as w j =
     status E
       (w @ [Sqlite3_reset (Stmt_stmt s), Sqlite3_bind_parameter_count (Stmt_stmt s)]
          @ take j (spec_binds F (Stmt_stmt s) 0 as))
       (spec_binds F (Stmt_stmt s) 0 as ! j)"

section \<open>Properties\<close>

subsection \<open>Rendering an error\<close>

lemma Conn_error_nonzero: "rv \<noteq> 0 \<Longrightarrow> fst (Conn_error E c rv w) \<noteq> None"
  by (cases c) (auto split: option.splits)

lemma colon_not_in_nil: "NewError (a @ '': '' @ m) \<noteq> NewError ''nil sqlite database''"
proof
  assume "NewError (a @ '': '' @ m) = NewError ''nil sqlite database''"
  then have eq: "a @ '': '' @ m = ''nil sqlite database''" by (simp only: os_Error.inject)
  have "CHR '':'' \<in> set (a @ '': '' @ m)" by simp
  then have "CHR '':'' \<in> set ''nil sqlite database''" unfolding eq .
  then show False by simp
qed

text \<open>
  Claim C1. \<open>Conn.error\<close> is a full case analysis. On a nil connection or a
  connection with a nil handle it returns the error "nil sqlite database"
  whatever the status, and calls nothing. On an open connection status 0 gives
  nil, status 21 gives the bare \<open>Errno\<close> and no call to \<open>sqlite3_errmsg\<close>, and
  every other status gives the text of the status, a colon and a space, and the
  message \<open>sqlite3_errmsg\<close> answers for this handle. An open connection never
  gives the error of the closed one.
\<close>

theorem Conn_error_cases:
  "Conn_error E None rv w = (Some (NewError ''nil sqlite database''), w)
   \<and> Conn_error E (Some \<lparr>db = None\<rparr>) rv w = (Some (NewError ''nil sqlite database''), w)
   \<and> Conn_error E (Some \<lparr>db = Some h\<rparr>) 0 w = (None, w)
   \<and> Conn_error E (Some \<lparr>db = Some h\<rparr>) 21 w = (Some (Errno 21), w)
   \<and> (rv \<noteq> 0 \<and> rv \<noteq> 21 \<longrightarrow>
        Conn_error E (Some \<lparr>db = Some h\<rparr>) rv w =
          (Some (NewError (Errno_String rv @ '': '' @ message E w (Sqlite3_errmsg h))),
           w @ [Sqlite3_errmsg h]))
   \<and> fst (Conn_error E (Some \<lparr>db = Some h\<rparr>) rv w) \<noteq> Some (NewError ''nil sqlite database'')"
  using colon_not_in_nil [of "Errno_String rv" "message E w (Sqlite3_errmsg h)"] by simp

theorem Conn_error_cases_witness:
  "(1::int) \<noteq> 0 \<and> (1::int) \<noteq> 21 \<and>
   Conn_error (scripted (\<lambda>ev. 0) ''out of memory'') (Some \<lparr>db = Some 7\<rparr>) 1 [] =
     (Some (NewError ''SQL error or missing database: out of memory''), [Sqlite3_errmsg 7])
   \<and> Conn_error (scripted (\<lambda>ev. 0) ''out of memory'') (Some \<lparr>db = Some 7\<rparr>) 21 [] =
     (Some (Errno 21), [])"
  using Conn_error_cases [of "scripted (\<lambda>ev. 0) ''out of memory''" 1 "[]" 7]
  by (simp add: scripted_def Errno_String_def errText_def errText_table_def)

subsection \<open>Backup\<close>

text \<open>
  Claim C6. For every page count, \<open>Backup.Step\<close> returns nil when
  \<open>sqlite3_backup_step\<close> answers 0, 5 (busy) or 6 (locked), and the \<open>Errno\<close> of the
  status for every other answer. It makes that one call.
\<close>

theorem Backup_Step_cases:
  "(status E w (Sqlite3_backup_step (sb b) npage) \<in> {0, 5, 6} \<longrightarrow>
      fst (Backup_Step E b npage w) = None)
   \<and> (status E w (Sqlite3_backup_step (sb b) npage) \<notin> {0, 5, 6} \<longrightarrow>
      fst (Backup_Step E b npage w)
        = Some (Errno (status E w (Sqlite3_backup_step (sb b) npage))))
   \<and> snd (Backup_Step E b npage w) = w @ [Sqlite3_backup_step (sb b) npage]"
  by (simp add: Backup_Step_def call_def ErrBusy_def ErrLocked_def)

theorem Backup_Step_cases_witness:
  "fst (Backup_Step (scripted (\<lambda>ev. 5) []) \<lparr>sb = Some 3, dst = None, src = None\<rparr> (-1) []) = None
   \<and> fst (Backup_Step (scripted (\<lambda>ev. 101) []) \<lparr>sb = Some 3, dst = None, src = None\<rparr> 7 [])
       = Some (Errno 101)"
  using Backup_Step_cases [of "scripted (\<lambda>ev. 5) []" "[]" "\<lparr>sb = Some 3, dst = None, src = None\<rparr>" "-1"]
    Backup_Step_cases [of "scripted (\<lambda>ev. 101) []" "[]" "\<lparr>sb = Some 3, dst = None, src = None\<rparr>" 7]
  by (simp add: scripted_def)

text \<open>
  Claim C7. \<open>Backup.Close\<close> called twice on a session that holds a handle: the
  first call returns nil and clears the handle, the second returns \<open>os.EINVAL\<close>,
  and \<open>sqlite3_backup_finish\<close> is called once, by the first call.
\<close>

theorem Backup_Close_twice:
  "sb b = Some h \<Longrightarrow>
     (case Backup_Close b w of (r1, b1, w1) \<Rightarrow>
        r1 = None \<and> sb b1 = None \<and> w1 = w @ [Sqlite3_backup_finish (Some h)] \<and>
        (case Backup_Close b1 w1 of (r2, b2, w2) \<Rightarrow>
           r2 = Some EINVAL \<and> sb b2 = None \<and> w2 = w @ [Sqlite3_backup_finish (Some h)]))"
  by (simp add: Backup_Close_def)

theorem Backup_Close_twice_witness:
  "sb \<lparr>sb = Some 3, dst = None, src = None\<rparr> = Some 3 \<and>
   Backup_Close \<lparr>sb = Some 3, dst = None, src = None\<rparr> []
     = (None, \<lparr>sb = None, dst = None, src = None\<rparr>, [Sqlite3_backup_finish (Some 3)]) \<and>
   Backup_Close \<lparr>sb = None, dst = None, src = None\<rparr> [Sqlite3_backup_finish (Some 3)]
     = (Some EINVAL, \<lparr>sb = None, dst = None, src = None\<rparr>, [Sqlite3_backup_finish (Some 3)])"
  using Backup_Close_twice [of "\<lparr>sb = Some 3, dst = None, src = None\<rparr>" 3 "[]"]
  by (simp add: Backup_Close_def)

subsection \<open>A closed connection\<close>

text \<open>
  Claim C8. For every SQL text and every argument list, \<open>Prepare\<close> and \<open>Exec\<close> on
  a closed connection return the error "nil sqlite database" and leave the
  trace as it was: no call reaches the engine.
\<close>

theorem closed_Conn_fails_fast:
  "closed c \<Longrightarrow>
     Conn_Prepare E c cmd w = ((None, Some (NewError ''nil sqlite database'')), w)
     \<and> Conn_Exec E F c cmd as w = (Returns (Some (NewError ''nil sqlite database'')), w)"
  by (cases c) (auto simp: closed_def Conn_Exec_def)

theorem closed_Conn_fails_fast_witness:
  "(case Conn_Close (scripted (\<lambda>ev. 0) []) (Some \<lparr>db = Some 1\<rparr>) [] of (r, c, w) \<Rightarrow>
      r = None \<and> closed c \<and>
      Conn_Prepare (scripted (\<lambda>ev. 0) []) c ''select 1'' w
        = ((None, Some (NewError ''nil sqlite database'')), [Sqlite3_close 1]) \<and>
      Conn_Exec (scripted (\<lambda>ev. 0) []) demo_fmt c ''select ?'' [Bool True] w
        = (Returns (Some (NewError ''nil sqlite database'')), [Sqlite3_close 1]))"
  using closed_Conn_fails_fast [of "Some \<lparr>db = None\<rparr>" "scripted (\<lambda>ev. 0) []" "''select 1''" "[Sqlite3_close 1]"]
    closed_Conn_fails_fast [of "Some \<lparr>db = None\<rparr>" "scripted (\<lambda>ev. 0) []" "''select ?''" "[Sqlite3_close 1]" demo_fmt "[Bool True]"]
  by (simp add: closed_def scripted_def call_def)

subsection \<open>Stepping a statement\<close>

text \<open>
  Claim C3. \<open>Stmt.Next\<close>, by the status \<open>sqlite3_step\<close> answers: on 100 (row) it
  returns true; on 101 (done) it returns false and the statement, its recorded
  error included, is as before; on any other status it returns false and the
  \<open>Error\<close> accessor then gives what \<open>Conn.error\<close> renders for that status, which
  is not nil when the status is not 0.
\<close>

theorem Stmt_Next_cases:
  "(status E w (Sqlite3_step (Stmt_stmt s)) = Row \<longrightarrow>
      Stmt_Next E s w = (True, s, w @ [Sqlite3_step (Stmt_stmt s)]))
   \<and> (status E w (Sqlite3_step (Stmt_stmt s)) = Done \<longrightarrow>
      Stmt_Next E s w = (False, s, w @ [Sqlite3_step (Stmt_stmt s)]))
   \<and> (status E w (Sqlite3_step (Stmt_stmt s)) \<notin> {Row, Done} \<longrightarrow>
      fst (Stmt_Next E s w) = False \<and>
      Stmt_Error (fst (snd (Stmt_Next E s w)))
        = fst (Conn_error E (Stmt_c s) (status E w (Sqlite3_step (Stmt_stmt s)))
                 (w @ [Sqlite3_step (Stmt_stmt s)])) \<and>
      (status E w (Sqlite3_step (Stmt_stmt s)) \<noteq> 0 \<longrightarrow>
         Stmt_Error (fst (snd (Stmt_Next E s w))) \<noteq> None))"
  using Conn_error_nonzero [of "status E w (Sqlite3_step (Stmt_stmt s))" E "Stmt_c s"
      "w @ [Sqlite3_step (Stmt_stmt s)]"]
  by (simp add: Stmt_Next_def call_def Row_def Done_def Stmt_Error_def case_prod_beta)

theorem Stmt_Next_cases_witness:
  "Stmt_Next (scripted (\<lambda>ev. 100) ''m'') demo_stmt [] = (True, demo_stmt, [Sqlite3_step (Some 2)])
   \<and> Stmt_Next (scripted (\<lambda>ev. 101) ''m'') demo_stmt [] = (False, demo_stmt, [Sqlite3_step (Some 2)])
   \<and> Stmt_Next (scripted (\<lambda>ev. 19) ''m'') demo_stmt []
      = (False, demo_stmt\<lparr>Stmt_err := Some (NewError ''Abort due to constraint violation: m'')\<rparr>,
         [Sqlite3_step (Some 2), Sqlite3_errmsg 1])"
  using Stmt_Next_cases [of "scripted (\<lambda>ev. 100) ''m''" "[]" demo_stmt]
    Stmt_Next_cases [of "scripted (\<lambda>ev. 101) ''m''" "[]" demo_stmt]
    Stmt_Next_cases [of "scripted (\<lambda>ev. 19) ''m''" "[]" demo_stmt]
  by (simp add: scripted_def demo_stmt_def Stmt_Next_def call_def Row_def Done_def
      Stmt_Error_def Errno_String_def errText_def errText_table_def)

subsection \<open>Binding arguments\<close>

text \<open>Every function only appends to the trace.\<close>

lemma Conn_error_prefix: "prefix w (snd (Conn_error E c rv w))"
  by (cases c) (auto split: option.splits)

lemma bind_args_prefix: "prefix w (snd (bind_args E F s i vs w))"
proof (induction vs arbitrary: i w)
  case Nil
  then show ?case by simp
next
  case (Cons v vs)
  have step: "\<And>ev. prefix (w @ [ev]) (snd (bind_args E F s (Suc i) vs (w @ [ev])))"
    by (rule Cons.IH)
  have pre: "\<And>ev x. prefix (w @ [ev]) x \<Longrightarrow> prefix w x"
    by (metis prefix_order.trans prefixI)
  show ?case
    by (cases v) (auto simp: call_def Let_def intro!: pre [OF step] pre [OF Conn_error_prefix])
qed

text \<open>
  Claim C4, as stated: with N arguments and M parameters, N different from M,
  \<open>Stmt.Exec\<close> returns the argument-count error. It fails when \<open>sqlite3_reset\<close>
  answers a nonzero status: \<open>Exec\<close> checks that status first and returns its
  rendering. Here N = 0, M = 1 and the reset answers 19.
\<close>

theorem Stmt_Exec_count_mismatch_counterexample:
  "status reset_fails [Sqlite3_reset (Stmt_stmt demo_stmt)]
       (Sqlite3_bind_parameter_count (Stmt_stmt demo_stmt)) = 1
   \<and> int (length ([] :: string arg list)) \<noteq> 1
   \<and> fst (Stmt_Exec reset_fails demo_fmt demo_stmt [] [])
       = Some (NewError ''Abort due to constraint violation: UNIQUE constraint failed: t.a'')
   \<and> fst (Stmt_Exec reset_fails demo_fmt demo_stmt [] []) \<noteq> Some (Exec_count_error 0 1)"
  by (simp add: reset_fails_def scripted_def demo_stmt_def demo_fmt_def Stmt_Exec_def call_def
      Exec_count_error_def Errno_String_def errText_def errText_table_def)

text \<open>
  Claim C4, amended: when \<open>sqlite3_reset\<close> answers 0 and the statement has M
  parameters, \<open>Stmt.Exec\<close> with N arguments, N different from M, returns the
  argument-count error "have N want M"; when \<open>sqlite3_reset\<close> answers a nonzero
  status, \<open>Exec\<close> returns \<open>Conn.error\<close> of that status whatever the counts.
\<close>

theorem Stmt_Exec_count_mismatch:
  "(status E w (Sqlite3_reset (Stmt_stmt s)) = 0 \<and>
    status E (w @ [Sqlite3_reset (Stmt_stmt s)]) (Sqlite3_bind_parameter_count (Stmt_stmt s)) = M \<and>
    int (length as) \<noteq> M \<longrightarrow>
      fst (Stmt_Exec E F s as w) = Some (Exec_count_error (length as) M))
   \<and> (status E w (Sqlite3_reset (Stmt_stmt s)) \<noteq> 0 \<longrightarrow>
      fst (Stmt_Exec E F s as w)
        = fst (Conn_error E (Stmt_c s) (status E w (Sqlite3_reset (Stmt_stmt s)))
                 (w @ [Sqlite3_reset (Stmt_stmt s)])))"
  by (auto simp: Stmt_Exec_def call_def Let_def case_prod_beta)

theorem Stmt_Exec_count_mismatch_witness:
  "status one_parameter [] (Sqlite3_reset (Stmt_stmt demo_stmt)) = 0
   \<and> status one_parameter [Sqlite3_reset (Stmt_stmt demo_stmt)]
        (Sqlite3_bind_parameter_count (Stmt_stmt demo_stmt)) = 1
   \<and> int (length [Bool True, Other ''x'']) \<noteq> 1
   \<and> fst (Stmt_Exec one_parameter demo_fmt demo_stmt [Bool True, Other ''x''] [])
       = Some (NewError ''incorrect argument count for Stmt.Exec: have 2 want 1'')"
  using Stmt_Exec_count_mismatch [of one_parameter "[]" demo_stmt 1 "[Bool True, Other ''x'']" demo_fmt]
  by (simp add: one_parameter_def scripted_def demo_stmt_def Exec_count_error_def Itoa_def
      nat_digits.simps)

text \<open>
  Claim C9. When \<open>Stmt.Exec\<close> returns the argument-count error the statement is
  no longer the one it was given: its \<open>args\<close> field, the tail of what \<open>SQL()\<close>
  returns, holds the rendering of the new arguments, and \<open>sqlite3_reset\<close> has
  been called on the statement before anything else.
\<close>

theorem Stmt_Exec_count_error_not_atomic:
  "fst (Stmt_Exec E F s as w) = Some (Exec_count_error (length as) n) \<Longrightarrow>
     fst (snd (Stmt_Exec E F s as w)) = s\<lparr>Stmt_args := '' '' @ Sprintf_v F as\<rparr>
     \<and> Stmt_SQL (fst (snd (Stmt_Exec E F s as w))) = Stmt_sql s @ '' '' @ Sprintf_v F as
     \<and> prefix (w @ [Sqlite3_reset (Stmt_stmt s)]) (snd (snd (Stmt_Exec E F s as w)))"
proof -
  let ?s = "s\<lparr>Stmt_args := '' '' @ Sprintf_v F as\<rparr>"
  let ?w1 = "w @ [Sqlite3_reset (Stmt_stmt s)]"
  let ?w2 = "?w1 @ [Sqlite3_bind_parameter_count (Stmt_stmt s)]"
  have 1: "prefix ?w1 (snd (Conn_error E (Stmt_c s) (status E w (Sqlite3_reset (Stmt_stmt s))) ?w1))"
    by (rule Conn_error_prefix)
  have "prefix ?w2 (snd (bind_args E F ?s 0 as ?w2))"
    by (rule bind_args_prefix)
  then have 2: "prefix ?w1 (snd (bind_args E F ?s 0 as ?w2))"
    by (metis prefix_order.trans prefixI)
  show ?thesis
    using 1 2 by (simp add: Stmt_Exec_def call_def Let_def case_prod_beta Stmt_SQL_def)
qed

theorem Stmt_Exec_count_error_not_atomic_witness:
  "fst (Stmt_Exec one_parameter demo_fmt demo_stmt [] []) = Some (Exec_count_error (length ([] :: string arg list)) 1)
   \<and> Stmt_Exec one_parameter demo_fmt demo_stmt [] []
       = (Some (NewError ''incorrect argument count for Stmt.Exec: have 0 want 1''),
          demo_stmt\<lparr>Stmt_args := '' [0]''\<rparr>,
          [Sqlite3_reset (Some 2), Sqlite3_bind_parameter_count (Some 2)])
   \<and> demo_stmt\<lparr>Stmt_args := '' [0]''\<rparr> \<noteq> demo_stmt
   \<and> Stmt_SQL demo_stmt = ''select ?''
   \<and> Stmt_SQL (fst (snd (Stmt_Exec one_parameter demo_fmt demo_stmt [] []))) = ''select ? [0]''"
  using Stmt_Exec_count_error_not_atomic [of one_parameter demo_fmt demo_stmt "[]" "[]" 1]
  by (simp add: one_parameter_def scripted_def demo_stmt_def demo_fmt_def Stmt_Exec_def call_def
      Exec_count_error_def Itoa_def nat_digits.simps Stmt_SQL_def)


lemma Conn_error_trace:
  "\<exists>t. snd (Conn_error E c rv w) = w @ t \<and> set t \<subseteq> range Sqlite3_errmsg"
  by (cases c) (auto split: option.splits)

lemma bind_args_trace:
  "\<exists>k t. k \<le> length vs
     \<and> snd (bind_args E F s i vs w) = w @ take k (spec_binds F (Stmt_stmt s) i vs) @ t
     \<and> (fst (bind_args E F s i vs w) = None \<longrightarrow> k = length vs \<and> t = [])
     \<and> set t \<subseteq> range Sqlite3_errmsg"
proof (induction vs arbitrary: i w)
  case Nil
  show ?case by (simp add: spec_binds_def)
next
  case (Cons v vs)
  let ?ev = "spec_bind F (Stmt_stmt s) (int i + 1) v"
  let ?rv = "status E w ?ev"
  have unfold: "bind_args E F s i (v # vs) w =
      (if ?rv \<noteq> 0 then Conn_error E (Stmt_c s) ?rv (w @ [?ev])
       else bind_args E F s (Suc i) vs (w @ [?ev]))"
    by (cases v) (auto simp: spec_bind_def call_def Let_def)
  have binds: "spec_binds F (Stmt_stmt s) i (v # vs) = ?ev # spec_binds F (Stmt_stmt s) (Suc i) vs"
    by (simp add: spec_binds_def)
  show ?case
  proof (cases "?rv = 0")
    case True
    from Cons.IH [of "Suc i" "w @ [?ev]"] obtain k t where
      kt: "k \<le> length vs"
        "snd (bind_args E F s (Suc i) vs (w @ [?ev]))
           = (w @ [?ev]) @ take k (spec_binds F (Stmt_stmt s) (Suc i) vs) @ t"
        "fst (bind_args E F s (Suc i) vs (w @ [?ev])) = None \<longrightarrow> k = length vs \<and> t = []"
        "set t \<subseteq> range Sqlite3_errmsg"
      by auto
    show ?thesis
      apply (rule exI [of _ "Suc k"], rule exI [of _ t])
      using kt True by (simp add: unfold binds)
  next
    case False
    from Conn_error_trace [of E "Stmt_c s" ?rv "w @ [?ev]"] obtain t where
      t: "snd (Conn_error E (Stmt_c s) ?rv (w @ [?ev])) = (w @ [?ev]) @ t"
        "set t \<subseteq> range Sqlite3_errmsg"
      by auto
    have "fst (Conn_error E (Stmt_c s) ?rv (w @ [?ev])) \<noteq> None"
      using False by (rule Conn_error_nonzero)
    then show ?thesis
      apply -
      apply (rule exI [of _ "Suc 0"], rule exI [of _ t])
      using t False by (auto simp: unfold binds)
  qed
qed

text \<open>
  The loop against the bindings of the specification: when every binding is
  answered 0 the loop makes all of them and returns nil, and when binding \<open>k\<close>
  is the first answered otherwise the loop stops there and returns the
  rendering of that status.
\<close>

lemma bind_args_Cons:
  "bind_args E F s i (v # vs) w =
     (if status E w (spec_bind F (Stmt_stmt s) (int i + 1) v) \<noteq> 0
      then Conn_error E (Stmt_c s) (status E w (spec_bind F (Stmt_stmt s) (int i + 1) v))
             (w @ [spec_bind F (Stmt_stmt s) (int i + 1) v])
      else bind_args E F s (Suc i) vs (w @ [spec_bind F (Stmt_stmt s) (int i + 1) v]))"
  by (cases v) (auto simp: spec_bind_def call_def Let_def)

lemma spec_binds_Cons:
  "spec_binds F st i (v # vs) = spec_bind F st (int i + 1) v # spec_binds F st (Suc i) vs"
  by (simp add: spec_binds_def)

lemma bind_args_all_ok:
  "(\<forall>j<length vs. status E (w @ take j (spec_binds F (Stmt_stmt s) i vs))
                     (spec_binds F (Stmt_stmt s) i vs ! j) = 0) \<Longrightarrow>
   bind_args E F s i vs w = (None, w @ spec_binds F (Stmt_stmt s) i vs)"
proof (induction vs arbitrary: i w)
  case Nil
  show ?case by (simp add: spec_binds_def)
next
  case (Cons v vs)
  let ?ev = "spec_bind F (Stmt_stmt s) (int i + 1) v"
  let ?rest = "spec_binds F (Stmt_stmt s) (Suc i) vs"
  from Cons.prems [rule_format, of 0] have head: "status E w ?ev = 0"
    by (simp add: spec_binds_Cons)
  have "\<forall>j<length vs. status E ((w @ [?ev]) @ take j ?rest) (?rest ! j) = 0"
  proof (intro allI impI)
    fix j assume "j < length vs"
    with Cons.prems [rule_format, of "Suc j"]
    show "status E ((w @ [?ev]) @ take j ?rest) (?rest ! j) = 0"
      by (simp add: spec_binds_Cons)
  qed
  from Cons.IH [OF this] head show ?case
    by (simp add: bind_args_Cons spec_binds_Cons)
qed

lemma bind_args_first_failure:
  "k < length vs \<Longrightarrow>
   (\<forall>j<k. status E (w @ take j (spec_binds F (Stmt_stmt s) i vs))
              (spec_binds F (Stmt_stmt s) i vs ! j) = 0) \<Longrightarrow>
   status E (w @ take k (spec_binds F (Stmt_stmt s) i vs))
     (spec_binds F (Stmt_stmt s) i vs ! k) \<noteq> 0 \<Longrightarrow>
   bind_args E F s i vs w =
     Conn_error E (Stmt_c s)
       (status E (w @ take k (spec_binds F (Stmt_stmt s) i vs))
          (spec_binds F (Stmt_stmt s) i vs ! k))
       (w @ take (Suc k) (spec_binds F (Stmt_stmt s) i vs))"
proof (induction vs arbitrary: i w k)
  case Nil
  then show ?case by simp
next
  case (Cons v vs)
  let ?ev = "spec_bind F (Stmt_stmt s) (int i + 1) v"
  let ?rest = "spec_binds F (Stmt_stmt s) (Suc i) vs"
  show ?case
  proof (cases k)
    case 0
    with Cons.prems(3) show ?thesis
      by (simp add: bind_args_Cons spec_binds_Cons)
  next
    case (Suc k')
    from Cons.prems(2) [rule_format, of 0] Suc have head: "status E w ?ev = 0"
      by (simp add: spec_binds_Cons)
    have len: "k' < length vs"
      using Cons.prems(1) Suc by simp
    have before: "\<forall>j<k'. status E ((w @ [?ev]) @ take j ?rest) (?rest ! j) = 0"
    proof (intro allI impI)
      fix j assume "j < k'"
      with Cons.prems(2) [rule_format, of "Suc j"] Suc
      show "status E ((w @ [?ev]) @ take j ?rest) (?rest ! j) = 0"
        by (simp add: spec_binds_Cons)
    qed
    have at: "status E ((w @ [?ev]) @ take k' ?rest) (?rest ! k') \<noteq> 0"
      using Cons.prems(3) Suc by (simp add: spec_binds_Cons)
    from Cons.IH [OF len before at] head Suc show ?thesis
      by (simp add: bind_args_Cons spec_binds_Cons)
  qed
qed

text \<open>
  Claim C5. Once the reset has succeeded and the count matches, \<open>Stmt.Exec\<close>
  binds each argument at its position, 1, 2, ... in order, by the call the
  specification describes for its type: a blob for a byte sequence (null pointer
  and length 0 when it is empty), the text "1" or "0" for a boolean, the default
  text for any other value. When the engine answers 0 to every binding, \<open>Exec\<close>
  makes all of them, nothing else, and returns nil. When binding \<open>k\<close> is the
  first the engine answers with another status, \<open>Exec\<close> makes the bindings up
  to and including \<open>k\<close>, none after it, and returns the rendering of that
  status, which is not nil. In every case the calls after the count are a prefix
  of these bindings followed by nothing but the reading of the error message.
\<close>

theorem Stmt_Exec_binds_by_type:
  assumes "status E w (Sqlite3_reset (Stmt_stmt s)) = 0"
    and "status E (w @ [Sqlite3_reset (Stmt_stmt s)]) (Sqlite3_bind_parameter_count (Stmt_stmt s))
           = int (length as)"
  shows "((\<forall>j<length as. bind_answer E F s as w j = 0) \<longrightarrow>
            Stmt_Exec E F s as w =
              (None, s\<lparr>Stmt_args := '' '' @ Sprintf_v F as\<rparr>,
               w @ [Sqlite3_reset (Stmt_stmt s), Sqlite3_bind_parameter_count (Stmt_stmt s)]
                 @ spec_binds F (Stmt_stmt s) 0 as))
     \<and> (\<forall>k<length as. (\<forall>j<k. bind_answer E F s as w j = 0) \<and> bind_answer E F s as w k \<noteq> 0 \<longrightarrow>
            fst (Stmt_Exec E F s as w) \<noteq> None \<and>
            Stmt_Exec E F s as w =
              (fst (Conn_error E (Stmt_c s) (bind_answer E F s as w k)
                      (w @ [Sqlite3_reset (Stmt_stmt s), Sqlite3_bind_parameter_count (Stmt_stmt s)]
                         @ take (Suc k) (spec_binds F (Stmt_stmt s) 0 as))),
               s\<lparr>Stmt_args := '' '' @ Sprintf_v F as\<rparr>,
               snd (Conn_error E (Stmt_c s) (bind_answer E F s as w k)
                      (w @ [Sqlite3_reset (Stmt_stmt s), Sqlite3_bind_parameter_count (Stmt_stmt s)]
                         @ take (Suc k) (spec_binds F (Stmt_stmt s) 0 as)))))
     \<and> (\<exists>k t. k \<le> length as
           \<and> snd (snd (Stmt_Exec E F s as w))
               = w @ [Sqlite3_reset (Stmt_stmt s), Sqlite3_bind_parameter_count (Stmt_stmt s)]
                   @ take k (spec_binds F (Stmt_stmt s) 0 as) @ t
           \<and> (fst (Stmt_Exec E F s as w) = None \<longrightarrow> k = length as \<and> t = [])
           \<and> set t \<subseteq> range Sqlite3_errmsg)"
proof -
  let ?s = "s\<lparr>Stmt_args := '' '' @ Sprintf_v F as\<rparr>"
  let ?w2 = "w @ [Sqlite3_reset (Stmt_stmt s), Sqlite3_bind_parameter_count (Stmt_stmt s)]"
  let ?pre = "[Sqlite3_reset (Stmt_stmt s), Sqlite3_bind_parameter_count (Stmt_stmt s)]"
  let ?evs = "spec_binds F (Stmt_stmt s) 0 as"
  have exec: "Stmt_Exec E F s as w
          = (fst (bind_args E F ?s 0 as ?w2), ?s, snd (bind_args E F ?s 0 as ?w2))"
    using assms by (simp add: Stmt_Exec_def call_def Let_def case_prod_beta)
  have all_ok: "(\<forall>j<length as. bind_answer E F s as w j = 0) \<longrightarrow>
      Stmt_Exec E F s as w = (None, ?s, w @ ?pre @ ?evs)"
  proof
    assume "\<forall>j<length as. bind_answer E F s as w j = 0"
    then have "\<forall>j<length as. status E (?w2 @ take j (spec_binds F (Stmt_stmt ?s) 0 as))
        (spec_binds F (Stmt_stmt ?s) 0 as ! j) = 0"
      by (simp add: bind_answer_def)
    from bind_args_all_ok [OF this] show "Stmt_Exec E F s as w = (None, ?s, w @ ?pre @ ?evs)"
      by (simp add: exec)
  qed
  have failure: "\<forall>k<length as.
      (\<forall>j<k. bind_answer E F s as w j = 0) \<and> bind_answer E F s as w k \<noteq> 0 \<longrightarrow>
        fst (Stmt_Exec E F s as w) \<noteq> None \<and>
        Stmt_Exec E F s as w =
          (fst (Conn_error E (Stmt_c s) (bind_answer E F s as w k) (w @ ?pre @ take (Suc k) ?evs)),
           ?s,
           snd (Conn_error E (Stmt_c s) (bind_answer E F s as w k) (w @ ?pre @ take (Suc k) ?evs)))"
  proof (intro allI impI, elim conjE)
    fix k
    assume k: "k < length as" and before: "\<forall>j<k. bind_answer E F s as w j = 0"
      and at: "bind_answer E F s as w k \<noteq> 0"
    have 1: "\<forall>j<k. status E (?w2 @ take j (spec_binds F (Stmt_stmt ?s) 0 as))
        (spec_binds F (Stmt_stmt ?s) 0 as ! j) = 0"
      using before by (simp add: bind_answer_def)
    have 2: "status E (?w2 @ take k (spec_binds F (Stmt_stmt ?s) 0 as))
        (spec_binds F (Stmt_stmt ?s) 0 as ! k) \<noteq> 0"
      using at by (simp add: bind_answer_def)
    have run: "bind_args E F ?s 0 as ?w2 =
        Conn_error E (Stmt_c s) (bind_answer E F s as w k) (w @ ?pre @ take (Suc k) ?evs)"
      using bind_args_first_failure [OF k 1 2] by (simp add: bind_answer_def)
    have "fst (Conn_error E (Stmt_c s) (bind_answer E F s as w k) (w @ ?pre @ take (Suc k) ?evs))
        \<noteq> None"
      using at by (rule Conn_error_nonzero)
    then show "fst (Stmt_Exec E F s as w) \<noteq> None \<and>
        Stmt_Exec E F s as w =
          (fst (Conn_error E (Stmt_c s) (bind_answer E F s as w k) (w @ ?pre @ take (Suc k) ?evs)),
           ?s,
           snd (Conn_error E (Stmt_c s) (bind_answer E F s as w k) (w @ ?pre @ take (Suc k) ?evs)))"
      unfolding exec run by simp
  qed
  have shape: "\<exists>k t. k \<le> length as
      \<and> snd (snd (Stmt_Exec E F s as w)) = w @ ?pre @ take k ?evs @ t
      \<and> (fst (Stmt_Exec E F s as w) = None \<longrightarrow> k = length as \<and> t = [])
      \<and> set t \<subseteq> range Sqlite3_errmsg"
    using bind_args_trace [of as E F ?s 0 ?w2] by (simp add: exec)
  from all_ok failure shape show ?thesis by blast
qed

theorem Stmt_Exec_binds_by_type_witness:
  "status five_parameters [] (Sqlite3_reset (Stmt_stmt demo_stmt)) = 0
   \<and> status five_parameters [Sqlite3_reset (Stmt_stmt demo_stmt)]
        (Sqlite3_bind_parameter_count (Stmt_stmt demo_stmt))
       = int (length [Bytes [], Bytes ''ab'', Bool True, Bool False, Other ''3.5''])
   \<and> bind_answer five_parameters demo_fmt demo_stmt
         [Bytes [], Bytes ''ab'', Bool True, Bool False, Other ''3.5''] [] 0 = 0
   \<and> bind_answer five_parameters demo_fmt demo_stmt
         [Bytes [], Bytes ''ab'', Bool True, Bool False, Other ''3.5''] [] 1 = 0
   \<and> bind_answer five_parameters demo_fmt demo_stmt
         [Bytes [], Bytes ''ab'', Bool True, Bool False, Other ''3.5''] [] 2 = 0
   \<and> bind_answer five_parameters demo_fmt demo_stmt
         [Bytes [], Bytes ''ab'', Bool True, Bool False, Other ''3.5''] [] 3 = 0
   \<and> bind_answer five_parameters demo_fmt demo_stmt
         [Bytes [], Bytes ''ab'', Bool True, Bool False, Other ''3.5''] [] 4 = 0
   \<and> Stmt_Exec five_parameters demo_fmt demo_stmt
        [Bytes [], Bytes ''ab'', Bool True, Bool False, Other ''3.5''] []
       = (None, demo_stmt\<lparr>Stmt_args := '' [5]''\<rparr>,
          [Sqlite3_reset (Some 2), Sqlite3_bind_parameter_count (Some 2),
           My_bind_blob (Some 2) 1 None 0,
           My_bind_blob (Some 2) 2 (Some ''ab'') 2,
           My_bind_text (Some 2) 3 ''1'' 1,
           My_bind_text (Some 2) 4 ''0'' 1,
           My_bind_text (Some 2) 5 ''3.5'' 3])
   \<and> spec_binds demo_fmt (Some 2) 0 [Bytes [], Bytes ''ab'', Bool True, Bool False, Other ''3.5'']
       = [My_bind_blob (Some 2) 1 None 0,
          My_bind_blob (Some 2) 2 (Some ''ab'') 2,
          My_bind_text (Some 2) 3 ''1'' 1,
          My_bind_text (Some 2) 4 ''0'' 1,
          My_bind_text (Some 2) 5 ''3.5'' 3]
   \<and> status second_bind_fails [] (Sqlite3_reset (Stmt_stmt demo_stmt)) = 0
   \<and> status second_bind_fails [Sqlite3_reset (Stmt_stmt demo_stmt)]
        (Sqlite3_bind_parameter_count (Stmt_stmt demo_stmt))
       = int (length [Bool True, Other ''x'', Bytes ''ab''])
   \<and> bind_answer second_bind_fails demo_fmt demo_stmt [Bool True, Other ''x'', Bytes ''ab''] [] 0
       = 0
   \<and> bind_answer second_bind_fails demo_fmt demo_stmt [Bool True, Other ''x'', Bytes ''ab''] []
        (Suc 0) = 25
   \<and> Stmt_Exec second_bind_fails demo_fmt demo_stmt [Bool True, Other ''x'', Bytes ''ab''] []
       = (Some (NewError
            ''2nd parameter to sqlite3_bind out of range: bind or column index out of range''),
          demo_stmt\<lparr>Stmt_args := '' [3]''\<rparr>,
          [Sqlite3_reset (Some 2), Sqlite3_bind_parameter_count (Some 2),
           My_bind_text (Some 2) 1 ''1'' 1,
           My_bind_text (Some 2) 2 ''x'' 1,
           Sqlite3_errmsg 1])"
  using Stmt_Exec_binds_by_type [of five_parameters "[]" demo_stmt
      "[Bytes [], Bytes ''ab'', Bool True, Bool False, Other ''3.5'']" demo_fmt]
    Stmt_Exec_binds_by_type [of second_bind_fails "[]" demo_stmt
      "[Bool True, Other ''x'', Bytes ''ab'']" demo_fmt]
  by (simp add: five_parameters_def second_bind_fails_def scripted_def demo_stmt_def demo_fmt_def
      Stmt_Exec_def call_def Itoa_def nat_digits.simps spec_binds_def spec_bind_def
      bind_answer_def All_less_Suc Errno_String_def errText_def errText_table_def)

subsection \<open>The loop of Run\<close>

text \<open>
  If the \<open>Step\<close> of iteration \<open>k\<close> is the first to return an error, the loop
  breaks there; and a loop that breaks did so at such an iteration.
\<close>

lemma Run_loop_breaks:
  "(\<forall>j<k. fst (Backup_Step E b npage (Run_world E b npage sleepNs chan w j)) = None) \<Longrightarrow>
   Backup_Step E b npage (Run_world E b npage sleepNs chan w k) = (Some e, w1) \<Longrightarrow>
   Run_loop E b npage sleepNs chan w = Some (e, w1)"
proof (induction k arbitrary: w)
  case 0
  then show ?case by (subst Run_loop.simps) simp
next
  case (Suc k)
  let ?w' = "Run_continue E b sleepNs chan (snd (Backup_Step E b npage w))"
  from Suc.prems(1) have first: "fst (Backup_Step E b npage w) = None"
    by (metis Run_world.simps(1) zero_less_Suc)
  have "\<forall>j<k. fst (Backup_Step E b npage (Run_world E b npage sleepNs chan ?w' j)) = None"
    using Suc.prems(1) by (metis Run_world.simps(2) Suc_less_eq)
  moreover have "Backup_Step E b npage (Run_world E b npage sleepNs chan ?w' k) = (Some e, w1)"
    using Suc.prems(2) by simp
  ultimately have "Run_loop E b npage sleepNs chan ?w' = Some (e, w1)"
    by (rule Suc.IH)
  then show ?case
    using first by (subst Run_loop.simps) (simp add: case_prod_beta)
qed

lemma Run_loop_broke:
  "Run_loop E b npage sleepNs chan w = Some r \<Longrightarrow>
   \<exists>k. (\<forall>j<k. fst (Backup_Step E b npage (Run_world E b npage sleepNs chan w j)) = None)
     \<and> Backup_Step E b npage (Run_world E b npage sleepNs chan w k) = (Some (fst r), snd r)"
proof (induction rule: Run_loop.raw_induct [rotated 1, consumes 1])
  case (1 loop E b npage sleepNs chan w r)
  show ?case
  proof (cases "fst (Backup_Step E b npage w)")
    case None
    let ?w' = "Run_continue E b sleepNs chan (snd (Backup_Step E b npage w))"
    from 1(2) None have "loop E b npage sleepNs chan ?w' = Some r"
      by (simp add: case_prod_beta)
    from 1(1) [OF this] obtain k where
      k: "\<forall>j<k. fst (Backup_Step E b npage (Run_world E b npage sleepNs chan ?w' j)) = None"
        "Backup_Step E b npage (Run_world E b npage sleepNs chan ?w' k) = (Some (fst r), snd r)"
      by auto
    have "\<forall>j<Suc k. fst (Backup_Step E b npage (Run_world E b npage sleepNs chan w j)) = None"
    proof (intro allI impI)
      fix j assume "j < Suc k"
      then show "fst (Backup_Step E b npage (Run_world E b npage sleepNs chan w j)) = None"
        using None k(1) by (cases j) simp_all
    qed
    moreover have "Backup_Step E b npage (Run_world E b npage sleepNs chan w (Suc k))
        = (Some (fst r), snd r)"
      using k(2) by simp
    ultimately show ?thesis by blast
  next
    case (Some e)
    with 1(2) have "(e, snd (Backup_Step E b npage w)) = r"
      by (simp add: case_prod_beta)
    with Some have "Backup_Step E b npage w = (Some (fst r), snd r)"
      by (metis fst_conv snd_conv prod.collapse)
    then have "(\<forall>j<0. fst (Backup_Step E b npage (Run_world E b npage sleepNs chan w j)) = None)
      \<and> Backup_Step E b npage (Run_world E b npage sleepNs chan w 0) = (Some (fst r), snd r)"
      by simp
    then show ?thesis by blast
  qed
qed


text \<open>
  Claim C2. \<open>Backup.Run\<close> returns if and only if the \<open>Step\<close> of some iteration
  returns a non-nil error, and then it left the loop at the first such
  iteration. What it returns is \<open>Conn.error\<close> of the destination on the code
  \<open>sqlite3_errcode\<close> answers for the destination handle at that moment; the
  error \<open>e\<close> that \<open>Step\<close> returned does not enter it. (With a nil destination
  the method panics instead of returning.)
\<close>

theorem Backup_Run_breaks_on_Step_error:
  "(Backup_Run E b npage sleepNs chan w \<noteq> None \<longleftrightarrow>
      (\<exists>k. fst (Backup_Step E b npage (Run_world E b npage sleepNs chan w k)) \<noteq> None))
   \<and> (\<forall>r w'. Backup_Run E b npage sleepNs chan w = Some (r, w') \<longrightarrow>
        (\<exists>k e w1.
           (\<forall>j<k. fst (Backup_Step E b npage (Run_world E b npage sleepNs chan w j)) = None)
           \<and> Backup_Step E b npage (Run_world E b npage sleepNs chan w k) = (Some e, w1)
           \<and> (case dst b of
                None \<Rightarrow> r = Panics \<and> w' = w1
              | Some d \<Rightarrow>
                  \<exists>x. r = Returns x \<and>
                    (x, w') = Conn_error E (Some d) (status E w1 (Sqlite3_errcode (db d)))
                                (w1 @ [Sqlite3_errcode (db d)]))))"
proof (intro conjI iffI allI impI)
  assume "Backup_Run E b npage sleepNs chan w \<noteq> None"
  then obtain r where "Run_loop E b npage sleepNs chan w = Some r"
    by (auto simp: Backup_Run_def split: option.splits)
  from Run_loop_broke [OF this] obtain k where
    "Backup_Step E b npage (Run_world E b npage sleepNs chan w k) = (Some (fst r), snd r)"
    by auto
  then have "fst (Backup_Step E b npage (Run_world E b npage sleepNs chan w k)) \<noteq> None"
    by simp
  then show "\<exists>k. fst (Backup_Step E b npage (Run_world E b npage sleepNs chan w k)) \<noteq> None"
    by (rule exI)
next
  let ?P = "\<lambda>k. fst (Backup_Step E b npage (Run_world E b npage sleepNs chan w k)) \<noteq> None"
  assume "\<exists>k. ?P k"
  then obtain k where k: "?P k" "\<forall>j<k. \<not> ?P j"
    using exists_least_iff [of ?P] by auto
  then obtain e where "Backup_Step E b npage (Run_world E b npage sleepNs chan w k)
      = (Some e, snd (Backup_Step E b npage (Run_world E b npage sleepNs chan w k)))"
    by (metis not_None_eq prod.collapse)
  with k(2) have "Run_loop E b npage sleepNs chan w
      = Some (e, snd (Backup_Step E b npage (Run_world E b npage sleepNs chan w k)))"
    by (intro Run_loop_breaks [where k = k]) auto
  then show "Backup_Run E b npage sleepNs chan w \<noteq> None"
    by (simp add: Backup_Run_def call_def case_prod_beta split: option.splits)
next
  fix r w'
  assume run: "Backup_Run E b npage sleepNs chan w = Some (r, w')"
  then obtain e w1 where loop: "Run_loop E b npage sleepNs chan w = Some (e, w1)"
    by (auto simp: Backup_Run_def split: option.splits)
  from Run_loop_broke [OF loop] obtain k where
    k: "\<forall>j<k. fst (Backup_Step E b npage (Run_world E b npage sleepNs chan w j)) = None"
      "Backup_Step E b npage (Run_world E b npage sleepNs chan w k) = (Some e, w1)"
    by auto
  have "case dst b of
          None \<Rightarrow> r = Panics \<and> w' = w1
        | Some d \<Rightarrow>
            \<exists>x. r = Returns x \<and>
              (x, w') = Conn_error E (Some d) (status E w1 (Sqlite3_errcode (db d)))
                          (w1 @ [Sqlite3_errcode (db d)])"
    using run loop
    by (auto simp: Backup_Run_def call_def case_prod_beta split: option.splits)
  with k show "\<exists>k e w1.
       (\<forall>j<k. fst (Backup_Step E b npage (Run_world E b npage sleepNs chan w j)) = None)
       \<and> Backup_Step E b npage (Run_world E b npage sleepNs chan w k) = (Some e, w1)
       \<and> (case dst b of
            None \<Rightarrow> r = Panics \<and> w' = w1
          | Some d \<Rightarrow>
              \<exists>x. r = Returns x \<and>
                (x, w') = Conn_error E (Some d) (status E w1 (Sqlite3_errcode (db d)))
                            (w1 @ [Sqlite3_errcode (db d)]))"
    by blast
qed

theorem Backup_Run_breaks_on_Step_error_witness:
  "Backup_Step busy_then_done demo_backup 1 (Run_world busy_then_done demo_backup 1 1000 True [] 0)
     = (None, [Sqlite3_backup_step (Some 3) 1])
   \<and> fst (Backup_Step busy_then_done demo_backup 1
            (Run_world busy_then_done demo_backup 1 1000 True [] (Suc 0)))
       = Some (Errno 101)
   \<and> Backup_Run busy_then_done demo_backup 1 1000 True []
       = Some (Returns None,
           [Sqlite3_backup_step (Some 3) 1, Sqlite3_backup_remaining (Some 3),
            Sqlite3_backup_pagecount (Some 3),
            Chan_send \<lparr>Remaining = 3, PageCount = 8\<rparr>, Time_Sleep 1000,
            Sqlite3_backup_step (Some 3) 1, Sqlite3_errcode (Some 1)])"
  using Backup_Run_breaks_on_Step_error [of busy_then_done demo_backup 1 1000 True "[]"]
  by (simp add: Backup_Run_def Run_loop.simps Backup_Step_def call_def busy_then_done_def
      demo_backup_def Run_continue_def Backup_Status_def ErrBusy_def ErrLocked_def)

subsection \<open>The recorded error of a statement\<close>

lemma Stmt_Next_keeps_err:
  "Stmt_err s \<noteq> None \<Longrightarrow> status E w (Sqlite3_step (Stmt_stmt s)) \<noteq> 0 \<Longrightarrow>
     Stmt_err (fst (snd (Stmt_Next E s w))) \<noteq> None"
  using Conn_error_nonzero [of "status E w (Sqlite3_step (Stmt_stmt s))" E "Stmt_c s"
      "w @ [Sqlite3_step (Stmt_stmt s)]"]
  by (simp add: Stmt_Next_def call_def case_prod_beta)

lemma Stmt_Exec_err: "Stmt_err (fst (snd (Stmt_Exec E F s as w))) = Stmt_err s"
  by (simp add: Stmt_Exec_def call_def Let_def case_prod_beta)

lemma apply_ops_keeps_err:
  "Stmt_err s \<noteq> None \<Longrightarrow> \<forall>h p. status E h (Sqlite3_step p) \<noteq> 0 \<Longrightarrow>
     Stmt_err (fst (apply_ops E F S ops s w)) \<noteq> None"
proof (induction ops arbitrary: s w)
  case Nil
  then show ?case by simp
next
  case (Cons x ops)
  show ?case
  proof (cases x)
    case Op_Next
    have "Stmt_err (fst (snd (Stmt_Next E s w))) \<noteq> None"
      using Cons.prems by (intro Stmt_Next_keeps_err) auto
    from Cons.IH [OF this Cons.prems(2)] show ?thesis
      using Op_Next by (simp add: case_prod_beta)
  next
    case Op_Reset
    then show ?thesis
      using Cons.IH [OF Cons.prems] by (simp add: Stmt_Reset_def)
  next
    case (Op_Exec as)
    have "Stmt_err (fst (snd (Stmt_Exec E F s as w))) \<noteq> None"
      using Cons.prems(1) by (simp add: Stmt_Exec_err)
    from Cons.IH [OF this Cons.prems(2)] show ?thesis
      using Op_Exec by (simp add: case_prod_beta)
  next
    case (Op_Scan ts)
    then show ?thesis
      using Cons.IH [OF Cons.prems] Cons.prems(1)
      by (simp add: case_prod_beta split: outcome.splits)
  qed
qed

text \<open>
  Claim C10. Once the recorded error of a statement is not nil, it stays so
  through any sequence of \<open>Next\<close>, \<open>Reset\<close>, \<open>Exec\<close> and \<open>Scan\<close> as long as no
  \<open>sqlite3_step\<close> answers 0 (it answers 100, 101 or an error code). \<open>Reset\<close>,
  \<open>Exec\<close> and a \<open>Next\<close> that reaches 101 leave the recorded error as it was, and
  that \<open>Next\<close> returns false: the earlier error is what \<open>Error()\<close> gives after a
  normal end of rows.
\<close>

theorem Stmt_err_never_cleared:
  "Stmt_Error s \<noteq> None \<Longrightarrow>
     ((\<forall>h p. status E h (Sqlite3_step p) \<noteq> 0) \<longrightarrow>
        Stmt_Error (fst (apply_ops E F S ops s w)) \<noteq> None)
     \<and> (status E w (Sqlite3_step (Stmt_stmt s)) = Done \<longrightarrow>
          fst (Stmt_Next E s w) = False \<and>
          Stmt_Error (fst (snd (Stmt_Next E s w))) = Stmt_Error s)
     \<and> Stmt_Error (fst (snd (Stmt_Reset E s w))) = Stmt_Error s
     \<and> Stmt_Error (fst (snd (Stmt_Exec E F s as w))) = Stmt_Error s"
  using apply_ops_keeps_err [of s E F S ops w] Stmt_Exec_err [of E F s as w]
  by (simp add: Stmt_Error_def Stmt_Next_def Stmt_Reset_def call_def Row_def Done_def)

theorem Stmt_err_never_cleared_witness:
  "Stmt_Error (demo_stmt\<lparr>Stmt_err := Some (Errno 21)\<rparr>) \<noteq> None
   \<and> (\<forall>h p. status no_rows h (Sqlite3_step p) \<noteq> 0)
   \<and> apply_ops no_rows demo_fmt demo_strconv
        [Op_Reset, Op_Exec [], Op_Next, Op_Scan [To_string], Op_Next]
        (demo_stmt\<lparr>Stmt_err := Some (Errno 21)\<rparr>) []
      = (demo_stmt\<lparr>Stmt_err := Some (Errno 21), Stmt_args := '' [0]''\<rparr>,
         [Sqlite3_reset (Some 2), Sqlite3_reset (Some 2), Sqlite3_bind_parameter_count (Some 2),
          Sqlite3_step (Some 2), Sqlite3_column_count (Some 2), Sqlite3_column_bytes (Some 2) 0,
          Sqlite3_column_blob (Some 2) 0, Sqlite3_step (Some 2)])
   \<and> Stmt_Next no_rows (demo_stmt\<lparr>Stmt_err := Some (Errno 21)\<rparr>) []
      = (False, demo_stmt\<lparr>Stmt_err := Some (Errno 21)\<rparr>, [Sqlite3_step (Some 2)])"
  using Stmt_err_never_cleared [of "demo_stmt\<lparr>Stmt_err := Some (Errno 21)\<rparr>" no_rows demo_fmt
      demo_strconv "[Op_Reset, Op_Exec [], Op_Next, Op_Scan [To_string], Op_Next]" "[]" "[]"]
  by (simp add: no_rows_def scripted_def demo_stmt_def demo_fmt_def demo_strconv_def
      Stmt_Error_def Stmt_Next_def Stmt_Reset_def Stmt_Exec_def Stmt_Scan_def call_def
      Row_def Done_def Itoa_def nat_digits.simps)

end
